theory Spec2Isabelle
  imports Complex_Main "HOL-Library.Char_ord" "HOL-Library.List_Lexorder"
    "HOL-Library.Product_Lexorder" "HOL-Library.Log_Nat"
begin

section \<open>The box-score table\<close>

text \<open>
  One row of \<^verbatim>\<open>partizan_2022_cleaned.csv\<close>, with the 27 columns that \<^verbatim>\<open>df.info()\<close>
  lists in the validation notebook. The column \<^verbatim>\<open>round\<close> is the field \<open>round_no\<close>.
  The integer columns are int64 in pandas: a field holds a value of the int64 range, and
  every sum and difference of such values is taken with the 64-bit wrap-around written
  out (\<open>int64\<close> below). A data frame is the list of its rows, in row order.
\<close>

record row =
  game :: string
  round_no :: int
  phase :: string
  is_starter :: bool
  is_playing :: bool
  player :: string
  minutes :: string
  points :: int
  two_points_made :: int
  two_points_attempted :: int
  three_points_made :: int
  three_points_attempted :: int
  free_throws_made :: int
  free_throws_attempted :: int
  offensive_rebounds :: int
  defensive_rebounds :: int
  total_rebounds :: int
  assists :: int
  steals :: int
  turnovers :: int
  blocks_favour :: int
  blocks_against :: int
  fouls_committed :: int
  fouls_received :: int
  valuation :: int
  plus_minus :: int
  total_seconds :: int

text \<open>The player name that marks a team-total row.\<close>

definition TEAM :: string where
  "TEAM = ''PARTIZAN MOZZART BET BELGRADE''"

text \<open>
  The int64 range, and the value that 64-bit two's complement arithmetic gives in place
  of an exact result \<open>x\<close>.
\<close>

definition in_int64 :: "int \<Rightarrow> bool" where
  "in_int64 x = (- (2 ^ 63) \<le> x \<and> x < 2 ^ 63)"

definition int64 :: "int \<Rightarrow> int" where
  "int64 x = (x + 2 ^ 63) mod 2 ^ 64 - 2 ^ 63"

text \<open>
  The value of an int64 as a float64, as a whole number: exact up to \<open>2\<^sup>5\<^sup>3\<close> in
  magnitude, beyond that rounded to the nearest multiple of the spacing, ties to the even
  multiple.
\<close>

definition round_half_even :: "nat \<Rightarrow> int \<Rightarrow> int" where
  "round_half_even e v =
     (let q = v div 2 ^ e; r = v mod 2 ^ e
      in (if 2 * r < 2 ^ e \<or> (2 * r = 2 ^ e \<and> even q) then q else q + 1) * 2 ^ e)"

definition float64_of_int :: "int \<Rightarrow> int" where
  "float64_of_int v =
     (if \<bar>v\<bar> \<le> 2 ^ 53 then v else round_half_even (nat (bitlen \<bar>v\<bar> - 53)) v)"

text \<open>
  \<^verbatim>\<open>frame[col].sum()\<close>: the int64 sum of a column, 0 on an empty frame. pandas adds
  int64 values without an overflow check, so the result is the exact sum wrapped.
\<close>

definition col_sum :: "(row \<Rightarrow> int) \<Rightarrow> row list \<Rightarrow> int" where
  "col_sum c rows = int64 (sum_list (map c rows))"

text \<open>\<^verbatim>\<open>series.unique()\<close>: the distinct values, in order of first appearance.\<close>

definition unique :: "'a list \<Rightarrow> 'a list" where
  "unique xs = rev (remdups (rev xs))"

section \<open>Data validation (notebook 3)\<close>

text \<open>
  \<^verbatim>\<open>partizan_team = df[df['player'] == 'PARTIZAN MOZZART BET BELGRADE']\<close> and
  \<^verbatim>\<open>partizan_players = df[df['player'] != 'PARTIZAN MOZZART BET BELGRADE']\<close>.
\<close>

definition partizan_team :: "row list \<Rightarrow> row list" where
  "partizan_team df = filter (\<lambda>r. player r = TEAM) df"

definition partizan_players :: "row list \<Rightarrow> row list" where
  "partizan_players df = filter (\<lambda>r. player r \<noteq> TEAM) df"

text \<open>
  \<^verbatim>\<open>check_metrics()\<close> compares seven season sums and prints one of two lines; the result
  is the line printed. No branch of the notebook raises: every check ends in a
  \<^verbatim>\<open>print\<close>.
\<close>

definition check_metrics :: "row list \<Rightarrow> string" where
  "check_metrics df =
     (if col_sum total_seconds (partizan_players df) = col_sum total_seconds (partizan_team df) \<and>
         col_sum points (partizan_players df) = col_sum points (partizan_team df) \<and>
         col_sum assists (partizan_players df) = col_sum assists (partizan_team df) \<and>
         col_sum free_throws_made (partizan_players df) = col_sum free_throws_made (partizan_team df) \<and>
         col_sum free_throws_attempted (partizan_players df) =
           col_sum free_throws_attempted (partizan_team df) \<and>
         col_sum fouls_committed (partizan_players df) = col_sum fouls_committed (partizan_team df) \<and>
         col_sum fouls_received (partizan_players df) = col_sum fouls_received (partizan_team df)
      then ''All metrics that should match perfectly are matching perfectly''
      else ''All metrics that should match perfectly are not matching perfectly'')"

text \<open>The three explanations that \<^verbatim>\<open>check_and_explain_metrics()\<close> can print.\<close>

definition rebounds_line :: string where
  "rebounds_line = ''Total rebounds are not matching perfectly, Reason: Team rebounds (e.g., dead-ball rebounds not attributed to any player) are included in the team total but not in individual stats.''"

definition steals_line :: string where
  "steals_line = ''Total steals are not matching perfectly, Reason: Discrepancy likely due to \"team steals\" (e.g., deflections not credited to a specific player) in the team total.''"

definition turnovers_line :: string where
  "turnovers_line = ''Total turnovers are not matching perfectly, Reason: Team turnovers (e.g., shot-clock violations, 8-second violations) are counted in the team total but not assigned to individual players.''"

text \<open>
  \<^verbatim>\<open>check_and_explain_metrics()\<close>: four independent \<^verbatim>\<open>if\<close> statements, each printing
  one line; the result is the list of lines printed, in order. The comparisons are
  \<^verbatim>\<open>==\<close> and \<^verbatim>\<open>!=\<close>: the sign of a difference is never looked at.
\<close>

definition check_and_explain_metrics :: "row list \<Rightarrow> string list" where
  "check_and_explain_metrics df =
     (if col_sum total_rebounds (partizan_players df) = col_sum total_rebounds (partizan_team df) \<and>
         col_sum steals (partizan_players df) = col_sum steals (partizan_team df) \<and>
         col_sum turnovers (partizan_players df) = col_sum turnovers (partizan_team df)
      then [''All metrics are matching perfectly''] else []) @
     (if col_sum total_rebounds (partizan_players df) \<noteq> col_sum total_rebounds (partizan_team df)
      then [rebounds_line] else []) @
     (if col_sum steals (partizan_players df) \<noteq> col_sum steals (partizan_team df)
      then [steals_line] else []) @
     (if col_sum turnovers (partizan_players df) \<noteq> col_sum turnovers (partizan_team df)
      then [turnovers_line] else [])"

text \<open>
  The two differences the notebook computes and prints, each an int64 subtraction. There
  is none for steals.
\<close>

definition rebound_difference :: "row list \<Rightarrow> int" where
  "rebound_difference df =
     int64 (col_sum total_rebounds (partizan_team df) -
            col_sum total_rebounds (partizan_players df))"

definition turnover_difference :: "row list \<Rightarrow> int" where
  "turnover_difference df =
     int64 (col_sum turnovers (partizan_team df) - col_sum turnovers (partizan_players df))"

text \<open>
  The cell that prints them: each line is its text and the number formatted into it.
\<close>

definition unassigned_report :: "row list \<Rightarrow> (string \<times> int) list" where
  "unassigned_report df =
     [(''Unassigned team rebounds: '', rebound_difference df),
      (''Unassigned team turnovers: '', turnover_difference df)]"

text \<open>
  The per-game loop. Its state is the lines printed so far and the flag
  \<^verbatim>\<open>all_metrics_match\<close>; \<open>check_game\<close> is one iteration of the body, for one value of
  \<^verbatim>\<open>df['game'].unique()\<close>. The team's value is \<^verbatim>\<open>team_row[col].sum()\<close>, a sum over
  however many team rows the game has.
\<close>

definition team_row :: "row list \<Rightarrow> string \<Rightarrow> row list" where
  "team_row df g = filter (\<lambda>r. player r = TEAM) (filter (\<lambda>r. game r = g) df)"

definition players_in_game :: "row list \<Rightarrow> string \<Rightarrow> row list" where
  "players_in_game df g = filter (\<lambda>r. player r \<noteq> TEAM) (filter (\<lambda>r. game r = g) df)"

definition check_game :: "row list \<Rightarrow> string list \<times> bool \<Rightarrow> string \<Rightarrow> string list \<times> bool" where
  "check_game df s g =
     (let s1 = (if col_sum points (team_row df g) \<noteq> col_sum points (players_in_game df g)
                then (fst s @ [''Points mismatch in game '' @ g], False) else s);
          s2 = (if col_sum assists (team_row df g) \<noteq> col_sum assists (players_in_game df g)
                then (fst s1 @ [''Assists mismatch in game '' @ g], False) else s1);
          s3 = (if col_sum total_seconds (team_row df g) \<noteq> col_sum total_seconds (players_in_game df g)
                then (fst s2 @ [''Seconds mismatch in game '' @ g], False) else s2)
      in s3)"

definition games_loop :: "row list \<Rightarrow> string list \<times> bool" where
  "games_loop df = foldl (check_game df) ([], True) (unique (map game df))"

definition per_game_check :: "row list \<Rightarrow> string list" where
  "per_game_check df =
     (if snd (games_loop df)
      then fst (games_loop df) @ [''Team totals match players sums for all metrics in all games.'']
      else fst (games_loop df))"




section \<open>Active players and game order (notebooks 6 and 10)\<close>

text \<open>
  Both notebooks start with
  \<^verbatim>\<open>players = df[df['player'] != 'PARTIZAN MOZZART BET BELGRADE']\<close> and
  \<^verbatim>\<open>active_players = players[players['is_playing'] == True]\<close>.
\<close>

definition players :: "row list \<Rightarrow> row list" where
  "players df = filter (\<lambda>r. player r \<noteq> TEAM) df"

definition active_players :: "row list \<Rightarrow> row list" where
  "active_players df = filter (\<lambda>r. is_playing r = True) (players df)"

text \<open>
  \<^verbatim>\<open>phase.map({...})\<close>: a phase that is not a key of the dictionary maps to NaN, here
  \<open>None\<close>. Notebook 10 numbers the phases 0 and 1, notebook 6 numbers them 1 and 2.
\<close>

definition phase_order :: "string \<Rightarrow> nat option" where
  "phase_order ph =
     (if ph = ''REGULAR SEASON'' then Some 0 else if ph = ''PLAYOFFS'' then Some 1 else None)"

definition phase_order_consistency :: "string \<Rightarrow> nat option" where
  "phase_order_consistency ph =
     (if ph = ''REGULAR SEASON'' then Some 1 else if ph = ''PLAYOFFS'' then Some 2 else None)"

text \<open>\<^verbatim>\<open>sort_values\<close> puts NaN after every number (\<^verbatim>\<open>na_position='last'\<close>).\<close>

definition na_last :: "nat option \<Rightarrow> nat \<times> nat" where
  "na_last v = (case v of Some k \<Rightarrow> (0, k) | None \<Rightarrow> (1, 0))"

text \<open>
  The sort key of a row under \<^verbatim>\<open>['phase_order', 'round']\<close>, for the notebook's phase
  numbering \<open>po\<close>, and the order of two rows under it: the specification's
  totalOrder.
\<close>

definition order_key :: "(string \<Rightarrow> nat option) \<Rightarrow> row \<Rightarrow> (nat \<times> nat) \<times> int" where
  "order_key po r = (na_last (po (phase r)), round_no r)"

definition total_order :: "(string \<Rightarrow> nat option) \<Rightarrow> row \<Rightarrow> row \<Rightarrow> bool" where
  "total_order po a b = (order_key po a < order_key po b)"

text \<open>
  \<^verbatim>\<open>sort_values(['player', 'phase_order', 'round'])\<close>: ascending, by the three columns
  in this order; rows with equal keys keep their order.
\<close>

definition sort_values :: "(string \<Rightarrow> nat option) \<Rightarrow> row list \<Rightarrow> row list" where
  "sort_values po rows = sort_key (\<lambda>r. (player r, order_key po r)) rows"

text \<open>One player's rows of a frame, in the frame's order: a group of \<^verbatim>\<open>groupby('player')\<close>.\<close>

definition rows_of :: "string \<Rightarrow> row list \<Rightarrow> row list" where
  "rows_of p rows = filter (\<lambda>r. player r = p) rows"

section \<open>Consistency statistics (notebook 6)\<close>

text \<open>A column of a frame as floats.\<close>

definition column :: "(row \<Rightarrow> int) \<Rightarrow> row list \<Rightarrow> real list" where
  "column c rows = map (\<lambda>r. real_of_int (c r)) rows"

text \<open>
  Modelled from the spec: the aggregation \<^verbatim>\<open>'mean'\<close> is pandas library code, not part
  of the repository. The mean of a group's values, over real numbers in place of float64.
\<close>

definition mean :: "real list \<Rightarrow> real" where
  "mean xs = sum_list xs / real (length xs)"

text \<open>
  Modelled from the spec: the aggregation \<^verbatim>\<open>'std'\<close> is pandas library code, not part
  of the repository. The sample standard deviation, dividing by n - 1; it needs two values
  and is NaN (\<open>None\<close>) below that.
\<close>

definition std :: "real list \<Rightarrow> real option" where
  "std xs =
     (if length xs < 2 then None
      else Some (sqrt (sum_list (map (\<lambda>x. (x - mean xs) * (x - mean xs)) xs) /
                       (real (length xs) - 1))))"





text \<open>\<^verbatim>\<open>min_games = 10\<close>\<close>

definition min_games :: nat where
  "min_games = 10"

text \<open>
  \<^verbatim>\<open>consistency_stats\<close>: the std of points, valuation and plus_minus per player of
  the active rows in table order, kept for the players with
  \<^verbatim>\<open>size() >= min_games\<close>. \<open>None\<close> is a player with no row in the result.
\<close>

definition consistency_stats :: "row list \<Rightarrow> string \<Rightarrow> (real option \<times> real option \<times> real option) option" where
  "consistency_stats df p =
     (let g = rows_of p (active_players df)
      in if g \<noteq> [] \<and> min_games \<le> length g
         then Some (std (column points g), std (column valuation g), std (column plus_minus g))
         else None)"

text \<open>
  \<^verbatim>\<open>active_players\<close> after the streakiness cell has sorted it by player, phase_order
  (1 and 2) and round.
\<close>

definition sorted_active :: "row list \<Rightarrow> row list" where
  "sorted_active df = sort_values phase_order_consistency (active_players df)"




section \<open>Feature engineering (notebook 10)\<close>

text \<open>
  \<^verbatim>\<open>player_games = active_players.groupby('player')['game'].nunique()\<close>: the number
  of distinct values of the column \<^verbatim>\<open>game\<close> among the player's active rows.
\<close>

definition player_games :: "row list \<Rightarrow> string \<Rightarrow> nat" where
  "player_games df p = length (remdups (map game (rows_of p (active_players df))))"

text \<open>
  \<^verbatim>\<open>active_players[active_players['player'].isin(player_games[player_games >= 10].index)]\<close>
\<close>

definition frequent_players :: "row list \<Rightarrow> row list" where
  "frequent_players df = filter (\<lambda>r. 10 \<le> player_games df (player r)) (active_players df)"

definition sorted_players :: "row list \<Rightarrow> row list" where
  "sorted_players df = sort_values phase_order (frequent_players df)"

text \<open>
  \<^verbatim>\<open>groupby('player')['points'].shift(1)\<close>: for each row, in frame order, the points of
  the previous row of the same player, NaN (\<open>None\<close>) when there is none. The shifted
  column is float64, so a value is the points as a float. \<open>seen\<close> holds the points of
  each player's latest row so far.
\<close>

fun shift_points :: "(string \<rightharpoonup> int) \<Rightarrow> row list \<Rightarrow> int option list" where
  "shift_points seen [] = []"
| "shift_points seen (r # rs) =
     seen (player r) # shift_points (seen(player r \<mapsto> float64_of_int (points r))) rs"

text \<open>
  A row of the final \<^verbatim>\<open>active_players\<close> frame: the box-score row and the three added
  columns. \<^verbatim>\<open>points_previous_game\<close> is a float64 column; its values are whole
  numbers and are kept as such.
\<close>

record model_row =
  base :: row
  points_previous_game :: int
  is_playoff :: int
  is_home :: int

text \<open>
  \<^verbatim>\<open>dropna(subset=['points_previous_game'])\<close>, then
  \<^verbatim>\<open>is_playoff = (phase == 'PLAYOFFS').astype(int)\<close> and
  \<^verbatim>\<open>is_home = 1 if game.startswith('PAR') else 0\<close>.
\<close>

definition add_features :: "row \<times> int option \<Rightarrow> model_row list" where
  "add_features rv =
     (case snd rv of
        None \<Rightarrow> []
      | Some v \<Rightarrow>
          [\<lparr>base = fst rv, points_previous_game = v,
            is_playoff = (if phase (fst rv) = ''PLAYOFFS'' then 1 else 0),
            is_home = (if take 3 (game (fst rv)) = ''PAR'' then 1 else 0)\<rparr>])"

text \<open>One player's rows of the sorted frame: the player's series.\<close>

definition series :: "row list \<Rightarrow> string \<Rightarrow> row list" where
  "series df p = rows_of p (sorted_players df)"

definition lagged :: "row list \<Rightarrow> (row \<times> int option) list" where
  "lagged df = zip (sorted_players df) (shift_points Map.empty (sorted_players df))"

definition model_rows :: "row list \<Rightarrow> model_row list" where
  "model_rows df = concat (map add_features (lagged df))"

section \<open>Regression models (notebook 10)\<close>

text \<open>
  A sample is a row of \<^verbatim>\<open>X\<close> (total_seconds, points_previous_game, is_playoff,
  is_home) with its \<^verbatim>\<open>y\<close> (points), as the float64 values the library works on.
  Floats are real numbers here.
\<close>

type_synonym sample = "real list \<times> real"

definition sample_of :: "model_row \<Rightarrow> sample" where
  "sample_of m =
     ([real_of_int (float64_of_int (total_seconds (base m))),
       real_of_int (points_previous_game m),
       real_of_int (is_playoff m), real_of_int (is_home m)],
      real_of_int (float64_of_int (points (base m))))"

text \<open>
  The scikit-learn functions the notebook calls are not part of the repository; the model
  takes them as a parameter. \<open>train_test_split\<close> stands for the call with
  \<^verbatim>\<open>test_size=0.2, random_state=42\<close> and returns (train, test); \<open>lr_fit\<close> for
  \<^verbatim>\<open>LinearRegression().fit\<close>; \<open>rf_fit\<close> for
  \<^verbatim>\<open>RandomForestRegressor(random_state=42, n_estimators=100).fit\<close>.
\<close>

record ('m, 'f) sklearn =
  train_test_split :: "sample list \<Rightarrow> sample list \<times> sample list"
  lr_fit :: "sample list \<Rightarrow> 'm"
  lr_intercept :: "'m \<Rightarrow> real"
  lr_coef :: "'m \<Rightarrow> real list"
  lr_predict :: "'m \<Rightarrow> real list list \<Rightarrow> real list"
  rf_fit :: "sample list \<Rightarrow> 'f"
  rf_predict :: "'f \<Rightarrow> real list list \<Rightarrow> real list"
  rf_feature_importances :: "'f \<Rightarrow> real list"
  r2_score :: "real list \<Rightarrow> real list \<Rightarrow> real"
  mean_squared_error :: "real list \<Rightarrow> real list \<Rightarrow> real"

text \<open>
  What a \<^verbatim>\<open>print\<close> call writes: a text, a text and a number, a text and an array, or
  an f-string that formats a number with \<^verbatim>\<open>:.2f\<close>.
\<close>

datatype printed =
  Line string
  | Number string real
  | Numbers string "real list"
  | Fixed2 string real

text \<open>
  The ways a modelling cell ends without its report: the early return of
  \<^verbatim>\<open>train_player_model\<close>; the ValueError that \<^verbatim>\<open>train_test_split\<close> raises
  when the training part would be empty, which with \<^verbatim>\<open>test_size=0.2\<close> is the case
  for fewer than 2 samples; and the NameError of a cell that reads \<^verbatim>\<open>X_train\<close>
  when the split that binds it has raised.
\<close>

datatype error = NotEnoughData string nat | ValueError | NameError

text \<open>The cell that fits and evaluates the linear regression on all model rows.\<close>

definition linear_regression :: "('m, 'f) sklearn \<Rightarrow> row list \<Rightarrow> error + printed list" where
  "linear_regression sk df =
     (if length (model_rows df) < 2 then Inl ValueError else
      let (train, test) = train_test_split sk (map sample_of (model_rows df));
          lr_model = lr_fit sk train;
          y_pred_lr = lr_predict sk lr_model (map fst test);
          r2_lr = r2_score sk (map snd test) y_pred_lr;
          mse_lr = mean_squared_error sk (map snd test) y_pred_lr
      in Inr [Line ''Linear Regression Results:'',
              Number ''Intercept:'' (lr_intercept sk lr_model),
              Numbers ''Coefficients (total_seconds, points_previous_game, is_playoff, is_home):''
                (lr_coef sk lr_model),
              Fixed2 ''R-squared: '' r2_lr,
              Fixed2 ''Mean Squared Error: '' mse_lr])"

text \<open>
  The cell that fits and evaluates the random forest on the split of the cell before;
  where that split has raised, \<^verbatim>\<open>X_train\<close> is unbound.
\<close>

definition random_forest :: "('m, 'f) sklearn \<Rightarrow> row list \<Rightarrow> error + printed list" where
  "random_forest sk df =
     (if length (model_rows df) < 2 then Inl NameError else
      let (train, test) = train_test_split sk (map sample_of (model_rows df));
          rf_model = rf_fit sk train;
          y_pred_rf = rf_predict sk rf_model (map fst test);
          r2_rf = r2_score sk (map snd test) y_pred_rf;
          mse_rf = mean_squared_error sk (map snd test) y_pred_rf
      in Inr [Line ''Random Forest Results:'',
              Fixed2 ''R-squared: '' r2_rf,
              Fixed2 ''Mean Squared Error: '' mse_rf,
              Numbers ''Feature Importance (total_seconds, points_previous_game, is_playoff, is_home):''
                (rf_feature_importances sk rf_model)])"

text \<open>
  \<^verbatim>\<open>train_player_model(player_name)\<close>. The early \<^verbatim>\<open>return\<close> after "Not enough
  data for ... (only n games)." is the error \<open>NotEnoughData\<close> with the name and n;
  otherwise the result is the lines printed. With 10 rows or more the split has a
  training part and does not raise.
\<close>

definition player_data :: "row list \<Rightarrow> string \<Rightarrow> model_row list" where
  "player_data df player_name = filter (\<lambda>m. player (base m) = player_name) (model_rows df)"

definition train_player_model ::
  "('m, 'f) sklearn \<Rightarrow> row list \<Rightarrow> string \<Rightarrow> error + printed list" where
  "train_player_model sk df player_name =
     (if length (player_data df player_name) < 10
      then Inl (NotEnoughData player_name (length (player_data df player_name)))
      else
        (let (train_p, test_p) = train_test_split sk (map sample_of (player_data df player_name));
             model_player = lr_fit sk train_p;
             y_pred_p = lr_predict sk model_player (map fst test_p);
             r2_p = r2_score sk (map snd test_p) y_pred_p;
             mse_p = mean_squared_error sk (map snd test_p) y_pred_p
         in Inr [Line (''Results for '' @ player_name @ '':''),
                 Number ''Intercept:'' (lr_intercept sk model_player),
                 Numbers ''Coefficients (total_seconds, points_previous_game, is_playoff, is_home):''
                   (lr_coef sk model_player),
                 Fixed2 ''R-squared: '' r2_p,
                 Fixed2 ''Mean Squared Error: '' mse_p]))"



section \<open>Sample tables\<close>

text \<open>Sample rows are written as updates of a row of zeros.\<close>

definition blank :: row where
  "blank = \<lparr>game = '''', round_no = 0, phase = '''', is_starter = False, is_playing = False,
     player = '''', minutes = '''', points = 0, two_points_made = 0, two_points_attempted = 0,
     three_points_made = 0, three_points_attempted = 0, free_throws_made = 0,
     free_throws_attempted = 0, offensive_rebounds = 0, defensive_rebounds = 0,
     total_rebounds = 0, assists = 0, steals = 0, turnovers = 0, blocks_favour = 0,
     blocks_against = 0, fouls_committed = 0, fouls_received = 0, valuation = 0,
     plus_minus = 0, total_seconds = 0\<rparr>"




text \<open>One game in which the players have two rebounds more than the team row.\<close>

definition players_over_team :: "row list" where
  "players_over_team =
     [blank\<lparr>game := ''PAR-MIL'', round_no := 3, phase := ''REGULAR SEASON'', player := TEAM,
        offensive_rebounds := 10, defensive_rebounds := 20, total_rebounds := 30,
        valuation := 30\<rparr>,
      blank\<lparr>game := ''PAR-MIL'', round_no := 3, phase := ''REGULAR SEASON'', is_playing := True,
        player := ''Lessort Mathias'', offensive_rebounds := 12, defensive_rebounds := 20,
        total_rebounds := 32, valuation := 32\<rparr>]"


text \<open>The row of a player who played: game, round, phase, points and seconds.\<close>

definition played :: "string \<Rightarrow> string \<Rightarrow> int \<Rightarrow> string \<Rightarrow> int \<Rightarrow> int \<Rightarrow> row" where
  "played p g rnd ph pts secs =
     blank\<lparr>game := g, round_no := rnd, phase := ph, is_playing := True, player := p,
       points := pts, two_points_made := pts div 2, two_points_attempted := pts div 2,
       valuation := pts, total_seconds := secs\<rparr>"

text \<open>
  Two rows of one player for the same round of the regular season, under two game
  values.
\<close>

definition tie_home :: row where
  "tie_home = played ''Vukcevic Tristan'' ''PAR-MAD'' 7 ''REGULAR SEASON'' 2 300"

definition tie_away :: row where
  "tie_away = played ''Vukcevic Tristan'' ''MAD-PAR'' 7 ''REGULAR SEASON'' 4 400"

text \<open>
  A game in which the team row has 40 rebounds and the player rows 34 between them.
\<close>

definition unassigned_rebounds :: "row list" where
  "unassigned_rebounds =
     [blank\<lparr>game := ''PAR-MIL'', round_no := 3, phase := ''REGULAR SEASON'', player := TEAM,
        offensive_rebounds := 12, defensive_rebounds := 28, total_rebounds := 40,
        valuation := 40\<rparr>,
      blank\<lparr>game := ''PAR-MIL'', round_no := 3, phase := ''REGULAR SEASON'', is_playing := True,
        player := ''Lessort Mathias'', offensive_rebounds := 8, defensive_rebounds := 12,
        total_rebounds := 20, valuation := 20\<rparr>,
      blank\<lparr>game := ''PAR-MIL'', round_no := 3, phase := ''REGULAR SEASON'', is_playing := True,
        player := ''Leday Zach'', offensive_rebounds := 4, defensive_rebounds := 10,
        total_rebounds := 14, valuation := 14\<rparr>]"

text \<open>
  Three rows of one player, stored out of order: a playoff game of round 1 and
  regular-season games of rounds 5 and 2.
\<close>

definition playoff1 :: row where
  "playoff1 = played ''Vukcevic Tristan'' ''MAD-PAR'' 1 ''PLAYOFFS'' 0 300"

definition regular5 :: row where
  "regular5 = played ''Vukcevic Tristan'' ''PAR-ZAL'' 5 ''REGULAR SEASON'' 8 600"

definition regular2 :: row where
  "regular2 = played ''Vukcevic Tristan'' ''BAS-PAR'' 2 ''REGULAR SEASON'' 2 500"

text \<open>
  A table of two players, all games at home in the regular season, 1800 seconds each.
  Punter has 11 games: 10 points in each of the first nine, then 12 and 8. Glas has 10
  games with 10 points each.
\<close>

definition home_games :: "string list" where
  "home_games =
     [''PAR-MIL'', ''PAR-VIR'', ''PAR-ZAL'', ''PAR-OLY'', ''PAR-BAS'', ''PAR-RED'', ''PAR-BER'',
      ''PAR-MAD'', ''PAR-IST'', ''PAR-PAM'', ''PAR-MUN'']"



text \<open>
  The same two players with 10 points in every game: Punter in 11 games, Glas in 10.
\<close>

definition steady_players :: "row list" where
  "steady_players =
     map (\<lambda>(g, rnd). played ''Punter Kevin'' g rnd ''REGULAR SEASON'' 10 1800)
       (zip home_games [1, 2, 3, 4, 5, 6, 7, 8, 9, 10, 11]) @
     map (\<lambda>(g, rnd). played ''Glas Gregor'' g rnd ''REGULAR SEASON'' 10 1800)
       (zip (take 10 home_games) [1, 2, 3, 4, 5, 6, 7, 8, 9, 10])"


text \<open>
  Glas with ten games of which two are the playoff games \<^verbatim>\<open>MAD-PAR\<close> of rounds 35 and
  39 (the real table has this game value in rounds 10, 35 and 39).
\<close>

definition ten_rows_nine_games :: "row list" where
  "ten_rows_nine_games =
     map (\<lambda>(g, rnd). played ''Glas Gregor'' g rnd ''REGULAR SEASON'' 10 1800)
       (zip (take 8 home_games) [1, 2, 3, 4, 5, 6, 7, 8]) @
     [played ''Glas Gregor'' ''MAD-PAR'' 35 ''PLAYOFFS'' 10 1800,
      played ''Glas Gregor'' ''MAD-PAR'' 39 ''PLAYOFFS'' 10 1800]"

text \<open>
  The library on samples whose target is the same number throughout, as in
  \<open>steady_players\<close>, \<open>five_games\<close> and \<open>ten_rows_nine_games\<close>. Whatever rows are held
  out, least squares gives that number as intercept and zero coefficients, the forest
  predicts it with zero importances, every prediction is exact, the mean squared error
  is 0 and R-squared is 1. The instance holds out the last \<open>\<lceil>0.2 n\<rceil>\<close> samples and
  computes the metrics by their formulas; it is used on such tables only.
\<close>

definition squared_errors :: "real list \<Rightarrow> real list \<Rightarrow> real" where
  "squared_errors ys ps = sum_list (map (\<lambda>(y, p). (y - p) * (y - p)) (zip ys ps))"

definition constant_fit :: "(real, real) sklearn" where
  "constant_fit =
     \<lparr>train_test_split =
        (\<lambda>xs. (take (length xs - (length xs + 4) div 5) xs,
               drop (length xs - (length xs + 4) div 5) xs)),
      lr_fit = (\<lambda>train. mean (map snd train)),
      lr_intercept = (\<lambda>m. m),
      lr_coef = (\<lambda>m. [0, 0, 0, 0]),
      lr_predict = (\<lambda>m X. map (\<lambda>x. m) X),
      rf_fit = (\<lambda>train. mean (map snd train)),
      rf_predict = (\<lambda>f X. map (\<lambda>x. f) X),
      rf_feature_importances = (\<lambda>f. [0, 0, 0, 0]),
      r2_score =
        (\<lambda>ys ps. if squared_errors ys (map (\<lambda>y. mean ys) ys) = 0
                 then (if squared_errors ys ps = 0 then 1 else 0)
                 else 1 - squared_errors ys ps / squared_errors ys (map (\<lambda>y. mean ys) ys)),
      mean_squared_error = (\<lambda>ys ps. squared_errors ys ps / real (length ys))\<rparr>"

section \<open>The per-game loop\<close>




















section \<open>Sums within the int64 range\<close>

lemma int64_exact: "in_int64 x \<Longrightarrow> int64 x = x"
  by (simp add: in_int64_def int64_def)


lemma col_sum_exact: "in_int64 (sum_list (map c rows)) \<Longrightarrow> col_sum c rows = sum_list (map c rows)"
  by (simp add: col_sum_def int64_exact)


section \<open>Exact-match metrics\<close>





section \<open>Reconcilable metrics\<close>

lemma explain_lines_distinct:
  "rebounds_line \<noteq> steals_line" "rebounds_line \<noteq> turnovers_line" "steals_line \<noteq> turnovers_line"
  "rebounds_line \<noteq> ''All metrics are matching perfectly''"
  "steals_line \<noteq> ''All metrics are matching perfectly''"
  "turnovers_line \<noteq> ''All metrics are matching perfectly''"
  by (simp_all add: rebounds_line_def steals_line_def turnovers_line_def)

lemma difference_exact:
  assumes "in_int64 (sum_list (map c (partizan_team df)))"
    and "in_int64 (sum_list (map c (partizan_players df)))"
    and "in_int64 (sum_list (map c (partizan_team df)) - sum_list (map c (partizan_players df)))"
  shows "int64 (col_sum c (partizan_team df) - col_sum c (partizan_players df)) =
     sum_list (map c (partizan_team df)) - sum_list (map c (partizan_players df))"
  using assms by (simp add: col_sum_exact int64_exact)

text \<open>
  Claim C2, as amended. The sums are the int64 sums that pandas computes. For total
  rebounds and for turnovers the notebook computes unassigned = team sum - player sum, an
  int64 subtraction, and prints it with its sign, whatever it is; it is the exact
  difference whenever the two exact sums and their difference lie in the int64 range. No
  such difference is computed for steals. \<open>check_and_explain_metrics\<close> prints, in this
  order, "All metrics are matching perfectly" when the three pairs of sums agree, and
  the explanation for rebounds, for steals and for turnovers when that metric's two sums
  differ, in either direction. Every outcome is a printed line; nothing is raised.
\<close>

theorem reconcilable_report:
  "unassigned_report df =
     [(''Unassigned team rebounds: '',
       int64 (col_sum total_rebounds (partizan_team df) -
              col_sum total_rebounds (partizan_players df))),
      (''Unassigned team turnovers: '',
       int64 (col_sum turnovers (partizan_team df) - col_sum turnovers (partizan_players df)))] \<and>
   check_and_explain_metrics df =
     map fst (filter snd
       [(''All metrics are matching perfectly'',
         col_sum total_rebounds (partizan_players df) = col_sum total_rebounds (partizan_team df) \<and>
         col_sum steals (partizan_players df) = col_sum steals (partizan_team df) \<and>
         col_sum turnovers (partizan_players df) = col_sum turnovers (partizan_team df)),
        (rebounds_line,
         col_sum total_rebounds (partizan_players df) \<noteq> col_sum total_rebounds (partizan_team df)),
        (steals_line, col_sum steals (partizan_players df) \<noteq> col_sum steals (partizan_team df)),
        (turnovers_line,
         col_sum turnovers (partizan_players df) \<noteq> col_sum turnovers (partizan_team df))]) \<and>
   (rebounds_line \<in> set (check_and_explain_metrics df)) =
     (col_sum total_rebounds (partizan_team df) \<noteq> col_sum total_rebounds (partizan_players df)) \<and>
   (steals_line \<in> set (check_and_explain_metrics df)) =
     (col_sum steals (partizan_team df) \<noteq> col_sum steals (partizan_players df)) \<and>
   (turnovers_line \<in> set (check_and_explain_metrics df)) =
     (col_sum turnovers (partizan_team df) \<noteq> col_sum turnovers (partizan_players df)) \<and>
   (in_int64 (sum_list (map total_rebounds (partizan_team df))) \<and>
    in_int64 (sum_list (map total_rebounds (partizan_players df))) \<and>
    in_int64 (sum_list (map total_rebounds (partizan_team df)) -
              sum_list (map total_rebounds (partizan_players df))) \<longrightarrow>
      rebound_difference df =
        sum_list (map total_rebounds (partizan_team df)) -
        sum_list (map total_rebounds (partizan_players df))) \<and>
   (in_int64 (sum_list (map turnovers (partizan_team df))) \<and>
    in_int64 (sum_list (map turnovers (partizan_players df))) \<and>
    in_int64 (sum_list (map turnovers (partizan_team df)) -
              sum_list (map turnovers (partizan_players df))) \<longrightarrow>
      turnover_difference df =
        sum_list (map turnovers (partizan_team df)) -
        sum_list (map turnovers (partizan_players df)))"
proof (intro conjI)
  show "unassigned_report df =
     [(''Unassigned team rebounds: '',
       int64 (col_sum total_rebounds (partizan_team df) -
              col_sum total_rebounds (partizan_players df))),
      (''Unassigned team turnovers: '',
       int64 (col_sum turnovers (partizan_team df) - col_sum turnovers (partizan_players df)))]"
    by (simp add: unassigned_report_def rebound_difference_def turnover_difference_def)
  show "check_and_explain_metrics df =
     map fst (filter snd
       [(''All metrics are matching perfectly'',
         col_sum total_rebounds (partizan_players df) = col_sum total_rebounds (partizan_team df) \<and>
         col_sum steals (partizan_players df) = col_sum steals (partizan_team df) \<and>
         col_sum turnovers (partizan_players df) = col_sum turnovers (partizan_team df)),
        (rebounds_line,
         col_sum total_rebounds (partizan_players df) \<noteq> col_sum total_rebounds (partizan_team df)),
        (steals_line, col_sum steals (partizan_players df) \<noteq> col_sum steals (partizan_team df)),
        (turnovers_line,
         col_sum turnovers (partizan_players df) \<noteq> col_sum turnovers (partizan_team df))])"
    unfolding check_and_explain_metrics_def by simp
  show "(rebounds_line \<in> set (check_and_explain_metrics df)) =
     (col_sum total_rebounds (partizan_team df) \<noteq> col_sum total_rebounds (partizan_players df))"
    using explain_lines_distinct by (auto simp: check_and_explain_metrics_def)
  show "(steals_line \<in> set (check_and_explain_metrics df)) =
     (col_sum steals (partizan_team df) \<noteq> col_sum steals (partizan_players df))"
    using explain_lines_distinct by (auto simp: check_and_explain_metrics_def)
  show "(turnovers_line \<in> set (check_and_explain_metrics df)) =
     (col_sum turnovers (partizan_team df) \<noteq> col_sum turnovers (partizan_players df))"
    using explain_lines_distinct by (auto simp: check_and_explain_metrics_def)
  show "in_int64 (sum_list (map total_rebounds (partizan_team df))) \<and>
    in_int64 (sum_list (map total_rebounds (partizan_players df))) \<and>
    in_int64 (sum_list (map total_rebounds (partizan_team df)) -
              sum_list (map total_rebounds (partizan_players df))) \<longrightarrow>
      rebound_difference df =
        sum_list (map total_rebounds (partizan_team df)) -
        sum_list (map total_rebounds (partizan_players df))"
    unfolding rebound_difference_def using difference_exact by blast
  show "in_int64 (sum_list (map turnovers (partizan_team df))) \<and>
    in_int64 (sum_list (map turnovers (partizan_players df))) \<and>
    in_int64 (sum_list (map turnovers (partizan_team df)) -
              sum_list (map turnovers (partizan_players df))) \<longrightarrow>
      turnover_difference df =
        sum_list (map turnovers (partizan_team df)) -
        sum_list (map turnovers (partizan_players df))"
    unfolding turnover_difference_def using difference_exact by blast
qed

theorem reconcilable_report_witness:
  "rebound_difference unassigned_rebounds = 6 \<and>
   turnover_difference unassigned_rebounds = 0 \<and>
   check_and_explain_metrics unassigned_rebounds = [rebounds_line]"
proof -
  have r: "in_int64 (sum_list (map total_rebounds (partizan_team unassigned_rebounds))) \<and>
      in_int64 (sum_list (map total_rebounds (partizan_players unassigned_rebounds))) \<and>
      in_int64 (sum_list (map total_rebounds (partizan_team unassigned_rebounds)) -
                sum_list (map total_rebounds (partizan_players unassigned_rebounds)))"
    by code_simp
  have t: "in_int64 (sum_list (map turnovers (partizan_team unassigned_rebounds))) \<and>
      in_int64 (sum_list (map turnovers (partizan_players unassigned_rebounds))) \<and>
      in_int64 (sum_list (map turnovers (partizan_team unassigned_rebounds)) -
                sum_list (map turnovers (partizan_players unassigned_rebounds)))"
    by code_simp
  have v: "sum_list (map total_rebounds (partizan_team unassigned_rebounds)) -
      sum_list (map total_rebounds (partizan_players unassigned_rebounds)) = 6"
    "sum_list (map turnovers (partizan_team unassigned_rebounds)) -
      sum_list (map turnovers (partizan_players unassigned_rebounds)) = 0"
    by code_simp+
  have c: "col_sum total_rebounds (partizan_players unassigned_rebounds) \<noteq>
        col_sum total_rebounds (partizan_team unassigned_rebounds)"
    "col_sum steals (partizan_players unassigned_rebounds) =
        col_sum steals (partizan_team unassigned_rebounds)"
    "col_sum turnovers (partizan_players unassigned_rebounds) =
        col_sum turnovers (partizan_team unassigned_rebounds)"
    by code_simp+
  have 1: "rebound_difference unassigned_rebounds = 6"
    using reconcilable_report [of unassigned_rebounds] r v by simp
  have 2: "turnover_difference unassigned_rebounds = 0"
    using reconcilable_report [of unassigned_rebounds] t v by simp
  have "check_and_explain_metrics unassigned_rebounds =
     map fst (filter snd
       [(''All metrics are matching perfectly'',
         col_sum total_rebounds (partizan_players unassigned_rebounds) =
           col_sum total_rebounds (partizan_team unassigned_rebounds) \<and>
         col_sum steals (partizan_players unassigned_rebounds) =
           col_sum steals (partizan_team unassigned_rebounds) \<and>
         col_sum turnovers (partizan_players unassigned_rebounds) =
           col_sum turnovers (partizan_team unassigned_rebounds)),
        (rebounds_line,
         col_sum total_rebounds (partizan_players unassigned_rebounds) \<noteq>
           col_sum total_rebounds (partizan_team unassigned_rebounds)),
        (steals_line, col_sum steals (partizan_players unassigned_rebounds) \<noteq>
           col_sum steals (partizan_team unassigned_rebounds)),
        (turnovers_line,
         col_sum turnovers (partizan_players unassigned_rebounds) \<noteq>
           col_sum turnovers (partizan_team unassigned_rebounds))])"
    using reconcilable_report [of unassigned_rebounds] by blast
  then have 3: "check_and_explain_metrics unassigned_rebounds = [rebounds_line]"
    using c by simp
  from 1 2 3 show ?thesis by blast
qed

text \<open>
  Claim C2 as stated fails where it says that a negative unassigned count is a hard
  failure: in \<open>players_over_team\<close> the players have 32 rebounds and the team row 30, the
  printed unassigned count is -2, and the output is the same explanation that a surplus
  on the team row gets; every other check prints its success line.
\<close>

theorem negative_unassigned_counterexample:
  "rebound_difference players_over_team = - 2 \<and>
   check_metrics players_over_team =
     ''All metrics that should match perfectly are matching perfectly'' \<and>
   check_and_explain_metrics players_over_team = [rebounds_line] \<and>
   unassigned_report players_over_team =
     [(''Unassigned team rebounds: '', - 2), (''Unassigned team turnovers: '', 0)] \<and>
   per_game_check players_over_team =
     [''Team totals match players sums for all metrics in all games.'']"
  by code_simp

section \<open>Team rows per game\<close>




section \<open>The total order of a player's games\<close>

lemma na_last_inj: "(na_last u = na_last v) = (u = v)"
  by (auto simp: na_last_def split: option.splits)

lemma total_order_irrefl: "\<not> total_order po a a"
  by (simp add: total_order_def)

lemma total_order_trans: "total_order po a b \<Longrightarrow> total_order po b c \<Longrightarrow> total_order po a c"
  unfolding total_order_def by (rule less_trans)

lemma total_order_trichotomy:
  "total_order po a b \<or> total_order po b a \<or>
   (po (phase a) = po (phase b) \<and> round_no a = round_no b)"
proof -
  have "order_key po a < order_key po b \<or> order_key po b < order_key po a \<or>
      order_key po a = order_key po b"
    by (rule less_linear [THEN disjE]) auto
  then show ?thesis
    unfolding total_order_def by (auto simp: order_key_def na_last_inj)
qed

lemma phase_dominant:
  assumes "po = phase_order \<or> po = phase_order_consistency"
    and "phase a = ''REGULAR SEASON''" and "phase b = ''PLAYOFFS''"
  shows "total_order po a b"
  using assms
  by (auto simp: total_order_def order_key_def na_last_def phase_order_def phase_order_consistency_def)

lemma same_phase_by_round:
  "phase a = phase b \<Longrightarrow> total_order po a b = (round_no a < round_no b)"
  by (simp add: total_order_def order_key_def)

lemma rows_of_sort_values:
  "rows_of p (sort_values po rows) = sort_key (\<lambda>r. (player r, order_key po r)) (rows_of p rows)"
  by (simp add: rows_of_def sort_values_def filter_sort)

lemma player_rows_of: "r \<in> set (rows_of p rows) \<Longrightarrow> player r = p"
  by (simp add: rows_of_def)

lemma sorted_rows_of_sort_values:
  "sorted (map (order_key po) (rows_of p (sort_values po rows)))"
proof -
  let ?xs = "rows_of p (sort_values po rows)"
  have "sorted (map (\<lambda>r. (player r, order_key po r)) ?xs)"
    unfolding rows_of_sort_values by (rule sorted_sort_key)
  then have "sorted_wrt (\<lambda>a b. (player a, order_key po a) \<le> (player b, order_key po b)) ?xs"
    by (simp add: sorted_map)
  then have "sorted_wrt (\<lambda>a b. order_key po a \<le> order_key po b) ?xs"
  proof (rule sorted_wrt_mono_rel [rotated])
    fix a b assume "a \<in> set ?xs" "b \<in> set ?xs"
      and le: "(player a, order_key po a) \<le> (player b, order_key po b)"
    then have "player a = p" "player b = p" by (auto dest: player_rows_of)
    with le show "order_key po a \<le> order_key po b" by simp
  qed
  then show ?thesis by (simp add: sorted_map)
qed

lemma series_never_reversed:
  "sorted_wrt (\<lambda>a b. \<not> total_order po b a) (rows_of p (sort_values po rows))"
  using sorted_rows_of_sort_values [of po p rows]
  by (simp add: sorted_map total_order_def not_less)

lemma series_strict:
  assumes "distinct (map (\<lambda>r. (po (phase r), round_no r)) (rows_of p rows))"
  shows "sorted_wrt (total_order po) (rows_of p (sort_values po rows))"
proof -
  let ?xs = "rows_of p (sort_values po rows)"
  have d: "distinct (rows_of p rows)" and i: "inj_on (\<lambda>r. (po (phase r), round_no r)) (set (rows_of p rows))"
    using assms by (simp_all add: distinct_map)
  have "inj_on (order_key po) (set (rows_of p rows))"
  proof (rule inj_onI)
    fix a b assume a: "a \<in> set (rows_of p rows)" and b: "b \<in> set (rows_of p rows)"
      and "order_key po a = order_key po b"
    then have "(po (phase a), round_no a) = (po (phase b), round_no b)"
      by (simp add: order_key_def na_last_inj)
    with i a b show "a = b" unfolding inj_on_def by blast
  qed
  with d have "distinct (map (order_key po) ?xs)"
    unfolding rows_of_sort_values by (simp add: distinct_map)
  with sorted_rows_of_sort_values [of po p rows]
  have "sorted_wrt (<) (map (order_key po) ?xs)"
    by (simp add: strict_sorted_iff)
  moreover have "total_order po = (\<lambda>a b. order_key po a < order_key po b)"
    by (intro ext) (simp add: total_order_def)
  ultimately show ?thesis
    by (simp add: sorted_wrt_map)
qed

text \<open>
  Claim C3, as amended. Under either notebook's phase numbering, the order of two rows by
  (phase_order, round) is irreflexive and transitive, and any two rows are ordered one way
  or the other unless they agree in phase number and round; a regular-season row comes
  before a playoff row whatever the rounds; within one phase the order is that of the
  rounds. In the sorted frame no row of a player stands before a row that precedes it, and
  when no two rows of the player agree in phase number and round, the player's rows stand
  in strictly ascending order.
\<close>

theorem total_order_phase_dominant:
  assumes "po = phase_order \<or> po = phase_order_consistency"
  shows "\<not> total_order po a a \<and>
     (total_order po a b \<longrightarrow> total_order po b c \<longrightarrow> total_order po a c) \<and>
     (total_order po a b \<or> total_order po b a \<or>
        (po (phase a) = po (phase b) \<and> round_no a = round_no b)) \<and>
     (phase a = ''REGULAR SEASON'' \<longrightarrow> phase b = ''PLAYOFFS'' \<longrightarrow> total_order po a b) \<and>
     (phase a = phase b \<longrightarrow> total_order po a b = (round_no a < round_no b)) \<and>
     sorted_wrt (\<lambda>x y. \<not> total_order po y x) (rows_of p (sort_values po rows)) \<and>
     (distinct (map (\<lambda>r. (po (phase r), round_no r)) (rows_of p rows)) \<longrightarrow>
        sorted_wrt (total_order po) (rows_of p (sort_values po rows)))"
  using assms total_order_irrefl [of po a] total_order_trans [of po a b c]
    total_order_trichotomy [of po a b] phase_dominant [of po a b]
    same_phase_by_round [of a b po] series_never_reversed [of po p rows]
    series_strict [of po p rows]
  by blast

theorem total_order_phase_dominant_witness:
  "total_order phase_order regular5 playoff1 \<and>
   total_order phase_order regular2 regular5 \<and>
   \<not> total_order phase_order playoff1 regular5 \<and>
   rows_of ''Vukcevic Tristan'' (sort_values phase_order [playoff1, regular5, regular2]) =
     [regular2, regular5, playoff1] \<and>
   sorted_wrt (total_order phase_order)
     (rows_of ''Vukcevic Tristan'' (sort_values phase_order [playoff1, regular5, regular2]))"
proof -
  have ph: "phase regular5 = ''REGULAR SEASON''" "phase playoff1 = ''PLAYOFFS''"
    "phase regular2 = phase regular5"
    by (simp_all add: regular5_def regular2_def playoff1_def played_def)
  have rd: "round_no regular2 < round_no regular5"
    by (simp add: regular5_def regular2_def played_def)
  have d: "distinct (map (\<lambda>r. (phase_order (phase r), round_no r))
      (rows_of ''Vukcevic Tristan'' [playoff1, regular5, regular2]))"
    by code_simp
  have s: "rows_of ''Vukcevic Tristan'' (sort_values phase_order [playoff1, regular5, regular2]) =
     [regular2, regular5, playoff1]"
    by code_simp
  have a: "total_order phase_order regular5 playoff1"
    using total_order_phase_dominant [where po = phase_order and a = regular5 and b = playoff1] ph by simp
  have b: "total_order phase_order regular2 regular5"
    using total_order_phase_dominant [where po = phase_order and a = regular2 and b = regular5] ph rd by simp
  have c: "\<not> total_order phase_order playoff1 regular5"
    using total_order_phase_dominant [where po = phase_order and a = regular5 and b = playoff1 and c = regular5] a
    by blast
  have e: "sorted_wrt (total_order phase_order)
     (rows_of ''Vukcevic Tristan'' (sort_values phase_order [playoff1, regular5, regular2]))"
    using total_order_phase_dominant [where po = phase_order and p = "''Vukcevic Tristan''"
        and rows = "[playoff1, regular5, regular2]"] d
    by blast
  from a b c s e show ?thesis by blast
qed

text \<open>
  Claim C3 as stated fails where it says that the order is total on a player's records:
  \<open>tie_home\<close> and \<open>tie_away\<close> are two different active rows of one player for round 7
  of the regular season, and neither comes before the other, under either numbering.
\<close>

theorem tied_rows_counterexample:
  "tie_home \<noteq> tie_away \<and> player tie_home = player tie_away \<and>
   is_playing tie_home \<and> is_playing tie_away \<and>
   \<not> total_order phase_order tie_home tie_away \<and>
   \<not> total_order phase_order tie_away tie_home \<and>
   \<not> total_order phase_order_consistency tie_home tie_away \<and>
   \<not> total_order phase_order_consistency tie_away tie_home"
  by code_simp

section \<open>Points of the previous game\<close>

lemma shift_points_cong:
  "(\<And>r. r \<in> set rs \<Longrightarrow> seen (player r) = seen' (player r)) \<Longrightarrow>
   shift_points seen rs = shift_points seen' rs"
proof (induction rs arbitrary: seen seen')
  case Nil
  show ?case by simp
next
  case (Cons r rs)
  have "seen (player r) = seen' (player r)" using Cons.prems by simp
  moreover have "shift_points (seen(player r \<mapsto> float64_of_int (points r))) rs = shift_points (seen'(player r \<mapsto> float64_of_int (points r))) rs"
  proof (rule Cons.IH)
    fix x assume "x \<in> set rs"
    then show "(seen(player r \<mapsto> float64_of_int (points r))) (player x) = (seen'(player r \<mapsto> float64_of_int (points r))) (player x)"
      using Cons.prems [of x] by simp
  qed
  ultimately show ?case by simp
qed

lemma shift_points_upd_other:
  "q \<notin> player ` set rs \<Longrightarrow> shift_points (seen(q \<mapsto> v)) rs = shift_points seen rs"
  by (rule shift_points_cong) (simp add: image_iff, metis)

lemma shift_points_group:
  "filter (\<lambda>rv. player (fst rv) = p) (zip rs (shift_points seen rs)) =
     zip (rows_of p rs) (shift_points seen (rows_of p rs))"
proof (induction rs arbitrary: seen)
  case Nil
  show ?case by (simp add: rows_of_def)
next
  case (Cons r rs)
  show ?case
  proof (cases "player r = p")
    case True
    have "filter (\<lambda>rv. player (fst rv) = p) (zip (r # rs) (shift_points seen (r # rs))) =
        (r, seen p) # filter (\<lambda>rv. player (fst rv) = p) (zip rs (shift_points (seen(p \<mapsto> float64_of_int (points r))) rs))"
      using True by simp
    also have "\<dots> = (r, seen p) # zip (rows_of p rs) (shift_points (seen(p \<mapsto> float64_of_int (points r))) (rows_of p rs))"
      by (simp only: Cons.IH)
    also have "\<dots> = zip (rows_of p (r # rs)) (shift_points seen (rows_of p (r # rs)))"
      using True by (simp add: rows_of_def)
    finally show ?thesis .
  next
    case False
    have "player r \<notin> player ` set (rows_of p rs)"
      using False by (auto simp: rows_of_def)
    then have other: "shift_points (seen(player r \<mapsto> float64_of_int (points r))) (rows_of p rs) = shift_points seen (rows_of p rs)"
      by (rule shift_points_upd_other)
    have "filter (\<lambda>rv. player (fst rv) = p) (zip (r # rs) (shift_points seen (r # rs))) =
        filter (\<lambda>rv. player (fst rv) = p) (zip rs (shift_points (seen(player r \<mapsto> float64_of_int (points r))) rs))"
      using False by simp
    also have "\<dots> = zip (rows_of p rs) (shift_points (seen(player r \<mapsto> float64_of_int (points r))) (rows_of p rs))"
      by (simp only: Cons.IH)
    also have "\<dots> = zip (rows_of p rs) (shift_points seen (rows_of p rs))"
      by (simp only: other)
    also have "\<dots> = zip (rows_of p (r # rs)) (shift_points seen (rows_of p (r # rs)))"
      using False by (simp add: rows_of_def)
    finally show ?thesis .
  qed
qed



lemma shift_points_one_player:
  "\<forall>r \<in> set rs. player r = p \<Longrightarrow>
   shift_points seen rs = (if rs = [] then [] else seen p # map (\<lambda>r. Some (float64_of_int (points r))) (butlast rs))"
proof (induction rs arbitrary: seen)
  case Nil
  show ?case by simp
next
  case (Cons r rs)
  have p: "player r = p" and all: "\<forall>r \<in> set rs. player r = p"
    using Cons.prems by simp_all
  show ?case
  proof (cases "rs = []")
    case True
    then show ?thesis using p by simp
  next
    case False
    have "shift_points (seen(p \<mapsto> float64_of_int (points r))) rs =
        (seen(p \<mapsto> float64_of_int (points r))) p # map (\<lambda>r. Some (float64_of_int (points r))) (butlast rs)"
      using Cons.IH [OF all, of "seen(p \<mapsto> float64_of_int (points r))"] False by (simp only: if_False)
    then have "shift_points (seen(p \<mapsto> float64_of_int (points r))) rs =
        Some (float64_of_int (points r)) # map (\<lambda>r. Some (float64_of_int (points r))) (butlast rs)"
      by simp
    then show ?thesis using p False by simp
  qed
qed

lemma shift_points_rows_of:
  "shift_points seen (rows_of p rs) =
     (if rows_of p rs = [] then [] else seen p # map (\<lambda>r. Some (float64_of_int (points r))) (butlast (rows_of p rs)))"
  by (rule shift_points_one_player) (simp add: rows_of_def)

lemma length_shift_points: "length (shift_points seen rs) = length rs"
  by (induction rs arbitrary: seen) simp_all

lemma base_add_features: "m \<in> set (add_features rv) \<Longrightarrow> base m = fst rv"
  by (auto simp: add_features_def split: option.splits)

lemma filter_concat_add_features:
  "filter (\<lambda>m. player (base m) = p) (concat (map add_features rvs)) =
     concat (map add_features (filter (\<lambda>rv. player (fst rv) = p) rvs))"
proof (induction rvs)
  case Nil
  show ?case by simp
next
  case (Cons rv rvs)
  have "filter (\<lambda>m. player (base m) = p) (add_features rv) =
      (if player (fst rv) = p then add_features rv else [])"
    by (auto simp: add_features_def split: option.splits)
  with Cons show ?case by simp
qed

lemma player_data_eq:
  "player_data df p =
     concat (map add_features (zip (series df p) (shift_points Map.empty (series df p))))"
  by (simp add: player_data_def model_rows_def lagged_def filter_concat_add_features
      shift_points_group series_def)

lemma concat_add_features_Some:
  "length rs = length vs \<Longrightarrow>
   map base (concat (map add_features (zip rs (map Some vs)))) = rs \<and>
   map points_previous_game (concat (map add_features (zip rs (map Some vs)))) = vs"
  by (induction rs vs rule: list_induct2) (auto simp: add_features_def)

lemma player_data_series:
  "map base (player_data df p) = tl (series df p) \<and>
   map points_previous_game (player_data df p) = map (\<lambda>r. float64_of_int (points r)) (butlast (series df p))"
proof (cases "series df p")
  case Nil
  then show ?thesis by (simp add: player_data_eq)
next
  case (Cons x xs)
  have sh: "shift_points Map.empty (series df p) = None # map Some (map (\<lambda>r. float64_of_int (points r)) (butlast (x # xs)))"
    unfolding series_def shift_points_rows_of using Cons by (simp add: series_def comp_def)
  have len: "length xs = length (map (\<lambda>r. float64_of_int (points r)) (butlast (x # xs)))" by simp
  have "player_data df p = concat (map add_features (zip xs (map Some (map (\<lambda>r. float64_of_int (points r)) (butlast (x # xs))))))"
    unfolding player_data_eq sh using Cons
    by (cases "butlast (x#xs)") (simp_all add: add_features_def)
  then show ?thesis using concat_add_features_Some [OF len] Cons by simp
qed

lemma rows_of_frequent_players:
  "rows_of p (frequent_players df) =
     (if 10 \<le> player_games df p then rows_of p (active_players df) else [])"
proof -
  have "rows_of p (frequent_players df) =
      filter (\<lambda>r. 10 \<le> player_games df (player r) \<and> player r = p) (active_players df)"
    by (simp add: rows_of_def frequent_players_def)
  also have "\<dots> = filter (\<lambda>r. 10 \<le> player_games df p \<and> player r = p) (active_players df)"
    by (rule filter_cong) auto
  also have "\<dots> = (if 10 \<le> player_games df p then rows_of p (active_players df) else [])"
    by (simp add: rows_of_def)
  finally show ?thesis .
qed

lemma series_eq:
  "series df p =
     sort_key (\<lambda>r. (player r, order_key phase_order r))
       (if 10 \<le> player_games df p then rows_of p (active_players df) else [])"
  by (simp only: series_def sorted_players_def rows_of_sort_values rows_of_frequent_players)

lemma length_series:
  "length (series df p) =
     (if 10 \<le> player_games df p then length (rows_of p (active_players df)) else 0)"
  by (simp add: series_eq)

lemma length_player_data: "length (player_data df p) = length (series df p) - 1"
proof -
  have "length (player_data df p) = length (map base (player_data df p))" by simp
  also have "\<dots> = length (tl (series df p))" by (simp only: player_data_series)
  finally show ?thesis by simp
qed

lemma model_rows_defined:
  "map (\<lambda>m. (base m, Some (points_previous_game m))) (concat (map add_features rvs)) =
     filter (\<lambda>rv. snd rv \<noteq> None) rvs"
  by (induction rvs) (auto simp: add_features_def split: option.splits)

lemma float64_exact: "\<bar>v\<bar> \<le> 2 ^ 53 \<Longrightarrow> float64_of_int v = v"
  by (simp add: float64_of_int_def)

text \<open>
  What the notebook's lag does for every player: the series is the player's rows of the
  sorted frame, which are the active rows of a player whom the filter admits, sorted by
  (phase_order, round), and no rows otherwise. The shifted points of the series are NaN
  for its first row and, for every later row, the points of the row just before it, as a
  float. The player's rows of the final frame are the series without its first row, each
  with that value as \<^verbatim>\<open>points_previous_game\<close>; the final frame as a whole is the
  rows whose shifted points are defined, with that value and no other.
\<close>

lemma lag_of_series:
  "map snd (filter (\<lambda>rv. player (fst rv) = p) (lagged df)) =
     (if series df p = [] then [] else None # map (\<lambda>r. Some (float64_of_int (points r))) (butlast (series df p))) \<and>
   map base (player_data df p) = tl (series df p) \<and>
   map points_previous_game (player_data df p) = map (\<lambda>r. float64_of_int (points r)) (butlast (series df p)) \<and>
   series df p =
     sort_key (\<lambda>r. (player r, order_key phase_order r))
       (if 10 \<le> player_games df p then rows_of p (active_players df) else []) \<and>
   sorted_wrt (\<lambda>a b. \<not> total_order phase_order b a) (series df p) \<and>
   map (\<lambda>m. (base m, Some (points_previous_game m))) (model_rows df) =
     filter (\<lambda>rv. snd rv \<noteq> None) (lagged df)"
proof (intro conjI)
  have "filter (\<lambda>rv. player (fst rv) = p) (lagged df) =
      zip (series df p) (shift_points Map.empty (series df p))"
    by (simp add: lagged_def shift_points_group series_def)
  then have "map snd (filter (\<lambda>rv. player (fst rv) = p) (lagged df)) =
      shift_points Map.empty (series df p)"
    by (simp add: length_shift_points)
  also have "\<dots> = (if series df p = [] then []
      else None # map (\<lambda>r. Some (float64_of_int (points r))) (butlast (series df p)))"
    unfolding series_def shift_points_rows_of by simp
  finally show "map snd (filter (\<lambda>rv. player (fst rv) = p) (lagged df)) =
     (if series df p = [] then [] else None # map (\<lambda>r. Some (float64_of_int (points r))) (butlast (series df p)))" .
  show "map base (player_data df p) = tl (series df p)"
    by (simp only: player_data_series)
  show "map points_previous_game (player_data df p) = map (\<lambda>r. float64_of_int (points r)) (butlast (series df p))"
    by (simp only: player_data_series)
  show "series df p =
     sort_key (\<lambda>r. (player r, order_key phase_order r))
       (if 10 \<le> player_games df p then rows_of p (active_players df) else [])"
    by (rule series_eq)
  show "sorted_wrt (\<lambda>a b. \<not> total_order phase_order b a) (series df p)"
    unfolding series_def sorted_players_def by (rule series_never_reversed)
  show "map (\<lambda>m. (base m, Some (points_previous_game m))) (model_rows df) =
     filter (\<lambda>rv. snd rv \<noteq> None) (lagged df)"
    unfolding model_rows_def by (rule model_rows_defined)
qed

text \<open>
  Claim C4 holds of the lag itself, but not for every player with 10 active games: the
  filter counts distinct values of \<^verbatim>\<open>game\<close> where the cell's comment and notebook 6
  count games. In \<open>ten_rows_nine_games\<close> Glas has 10 active rows with different rounds,
  two of them on the game value \<^verbatim>\<open>MAD-PAR\<close>; the filter counts 9 and drops the
  player, so that no row of the player has points of the previous game and none enters
  the final frame.
\<close>

theorem previous_points_failing_input:
  "length (rows_of ''Glas Gregor'' (active_players ten_rows_nine_games)) = 10 \<and>
   distinct (map (\<lambda>r. (phase r, round_no r))
     (rows_of ''Glas Gregor'' (active_players ten_rows_nine_games))) \<and>
   player_games ten_rows_nine_games ''Glas Gregor'' = 9 \<and>
   series ten_rows_nine_games ''Glas Gregor'' = [] \<and>
   lagged ten_rows_nine_games = [] \<and>
   model_rows ten_rows_nine_games = []"
  by code_simp

section \<open>The reports of the modelling cells\<close>

lemma linear_regression_report:
  assumes "2 \<le> length (model_rows df)"
  shows "linear_regression sk df =
     (let tr = fst (train_test_split sk (map sample_of (model_rows df)));
          te = snd (train_test_split sk (map sample_of (model_rows df)))
      in Inr [Line ''Linear Regression Results:'',
              Number ''Intercept:'' (lr_intercept sk (lr_fit sk tr)),
              Numbers ''Coefficients (total_seconds, points_previous_game, is_playoff, is_home):''
                (lr_coef sk (lr_fit sk tr)),
              Fixed2 ''R-squared: '' (r2_score sk (map snd te) (lr_predict sk (lr_fit sk tr) (map fst te))),
              Fixed2 ''Mean Squared Error: '' (mean_squared_error sk (map snd te) (lr_predict sk (lr_fit sk tr) (map fst te)))])"
  using assms unfolding linear_regression_def Let_def
  by (simp add: case_prod_beta)

lemma random_forest_report:
  assumes "2 \<le> length (model_rows df)"
  shows "random_forest sk df =
     (let tr = fst (train_test_split sk (map sample_of (model_rows df)));
          te = snd (train_test_split sk (map sample_of (model_rows df)))
      in Inr [Line ''Random Forest Results:'',
              Fixed2 ''R-squared: '' (r2_score sk (map snd te) (rf_predict sk (rf_fit sk tr) (map fst te))),
              Fixed2 ''Mean Squared Error: '' (mean_squared_error sk (map snd te) (rf_predict sk (rf_fit sk tr) (map fst te))),
              Numbers ''Feature Importance (total_seconds, points_previous_game, is_playoff, is_home):''
                (rf_feature_importances sk (rf_fit sk tr))])"
  using assms unfolding random_forest_def Let_def
  by (simp add: case_prod_beta)

lemma train_player_model_report:
  assumes "10 \<le> length (player_data df p)"
  shows "train_player_model sk df p =
     (let tr = fst (train_test_split sk (map sample_of (player_data df p)));
          te = snd (train_test_split sk (map sample_of (player_data df p)))
      in Inr [Line (''Results for '' @ p @ '':''),
              Number ''Intercept:'' (lr_intercept sk (lr_fit sk tr)),
              Numbers ''Coefficients (total_seconds, points_previous_game, is_playoff, is_home):''
                (lr_coef sk (lr_fit sk tr)),
              Fixed2 ''R-squared: '' (r2_score sk (map snd te) (lr_predict sk (lr_fit sk tr) (map fst te))),
              Fixed2 ''Mean Squared Error: '' (mean_squared_error sk (map snd te) (lr_predict sk (lr_fit sk tr) (map fst te)))])"
  using assms unfolding train_player_model_def Let_def
  by (simp add: case_prod_beta)


lemma steady_pool:
  "map sample_of (model_rows steady_players) = [([1800, 10, 0, 1], 10), ([1800, 10, 0, 1], 10), ([1800, 10, 0, 1], 10),
      ([1800, 10, 0, 1], 10), ([1800, 10, 0, 1], 10), ([1800, 10, 0, 1], 10),
      ([1800, 10, 0, 1], 10), ([1800, 10, 0, 1], 10), ([1800, 10, 0, 1], 10),
      ([1800, 10, 0, 1], 10), ([1800, 10, 0, 1], 10), ([1800, 10, 0, 1], 10),
      ([1800, 10, 0, 1], 10), ([1800, 10, 0, 1], 10), ([1800, 10, 0, 1], 10),
      ([1800, 10, 0, 1], 10), ([1800, 10, 0, 1], 10), ([1800, 10, 0, 1], 10),
      ([1800, 10, 0, 1], 10)]"
  by code_simp

lemma steady_punter:
  "map sample_of (player_data steady_players ''Punter Kevin'') =
     [([1800, 10, 0, 1], 10), ([1800, 10, 0, 1], 10), ([1800, 10, 0, 1], 10),
      ([1800, 10, 0, 1], 10), ([1800, 10, 0, 1], 10), ([1800, 10, 0, 1], 10),
      ([1800, 10, 0, 1], 10), ([1800, 10, 0, 1], 10), ([1800, 10, 0, 1], 10),
      ([1800, 10, 0, 1], 10)]"
  by code_simp

lemma steady_lengths:
  "length (model_rows steady_players) = 19"
  "length (player_data steady_players ''Punter Kevin'') = 10"
  "length (player_data steady_players ''Glas Gregor'') = 9"
  by code_simp+

lemma steady_punter_model:
  "train_player_model constant_fit steady_players ''Punter Kevin'' =
     Inr [Line ''Results for Punter Kevin:'', Number ''Intercept:'' 10,
          Numbers ''Coefficients (total_seconds, points_previous_game, is_playoff, is_home):''
            [0, 0, 0, 0],
          Fixed2 ''R-squared: '' 1, Fixed2 ''Mean Squared Error: '' 0]"
  unfolding train_player_model_def steady_lengths steady_punter
  by (simp add: constant_fit_def mean_def squared_errors_def)

section \<open>Too few games for a player's model\<close>




section \<open>A player with exactly ten games\<close>

lemma player_games_distinct:
  "distinct (map game (rows_of p (active_players df))) \<Longrightarrow>
   player_games df p = length (rows_of p (active_players df))"
  by (simp add: player_games_def distinct_remdups_id)

text \<open>
  Where the player's 10 active rows have 10 different game values, the notebook does
  what claim C10 says: the filter counts 10 and keeps the player's rows, 9 rows are left
  in the final frame after the first of the series is dropped, and a request for the
  player's model takes the early return with the count 9.
\<close>

lemma ten_distinct_games_no_model:
  assumes "length (rows_of p (active_players df)) = 10"
    and "distinct (map game (rows_of p (active_players df)))"
  shows "player_games df p = 10 \<and>
     rows_of p (frequent_players df) = rows_of p (active_players df) \<and>
     length (series df p) = 10 \<and>
     length (player_data df p) = 9 \<and>
     train_player_model sk df p = Inl (NotEnoughData p 9)"
proof -
  have g: "player_games df p = 10"
    using assms by (simp add: player_games_distinct)
  then have f: "rows_of p (frequent_players df) = rows_of p (active_players df)"
    by (simp add: rows_of_frequent_players)
  have s: "length (series df p) = 10"
    using g assms(1) by (simp add: length_series)
  then have d: "length (player_data df p) = 9"
    by (simp add: length_player_data)
  then have "train_player_model sk df p = Inl (NotEnoughData p 9)"
    by (simp add: train_player_model_def)
  with g f s d show ?thesis by simp
qed

text \<open>
  Claim C10: the code departs from it where a game value repeats. The filter counts
  distinct values of \<^verbatim>\<open>game\<close>, where its comment says "at least 10 games" and
  notebook 6 counts rows. In \<open>ten_rows_nine_games\<close> Glas has 10 active rows, two of them
  on the game value \<^verbatim>\<open>MAD-PAR\<close>: the filter counts 9 and does not admit the player,
  and the count that the guard compares with the threshold is 0, not 9. Notebook 6
  keeps the same player.
\<close>

theorem ten_games_failing_input:
  "length (rows_of ''Glas Gregor'' (active_players ten_rows_nine_games)) = 10 \<and>
   player_games ten_rows_nine_games ''Glas Gregor'' = 9 \<and>
   rows_of ''Glas Gregor'' (frequent_players ten_rows_nine_games) = [] \<and>
   length (player_data ten_rows_nine_games ''Glas Gregor'') = 0 \<and>
   train_player_model constant_fit ten_rows_nine_games ''Glas Gregor'' =
     Inl (NotEnoughData ''Glas Gregor'' 0) \<and>
   consistency_stats ten_rows_nine_games ''Glas Gregor'' \<noteq> None"
proof -
  have a: "length (rows_of ''Glas Gregor'' (active_players ten_rows_nine_games)) = 10 \<and>
      player_games ten_rows_nine_games ''Glas Gregor'' = 9 \<and>
      rows_of ''Glas Gregor'' (frequent_players ten_rows_nine_games) = [] \<and>
      length (player_data ten_rows_nine_games ''Glas Gregor'') = 0"
    by code_simp
  then have b: "train_player_model constant_fit ten_rows_nine_games ''Glas Gregor'' =
      Inl (NotEnoughData ''Glas Gregor'' 0)"
    by (simp add: train_player_model_def)
  from a have "rows_of ''Glas Gregor'' (active_players ten_rows_nine_games) \<noteq> []"
    by auto
  with a have c: "consistency_stats ten_rows_nine_games ''Glas Gregor'' \<noteq> None"
    by (simp add: consistency_stats_def Let_def min_games_def)
  from a b c show ?thesis by simp
qed

section \<open>The figures of merit that are printed\<close>

text \<open>
  Claim C9, as amended. With the split of the samples into a training and a held-out
  part, on a final frame of at least 2 rows the linear regression prints its heading, the
  intercept and the coefficients of the model fitted to the training part, and the
  R-squared and the mean squared error of its predictions for the held-out part; the
  random forest prints its heading, the R-squared and the mean squared error of its
  predictions for the held-out part, and its feature importances; a player's model, when
  the player has at least 10 rows, prints what the linear regression prints, for the
  player's samples. These are all the lines: no root of the mean squared error is
  computed or printed.
\<close>

theorem reported_figures:
  "(2 \<le> length (model_rows df) \<longrightarrow>
      (let tr = fst (train_test_split sk (map sample_of (model_rows df)));
           te = snd (train_test_split sk (map sample_of (model_rows df)))
       in linear_regression sk df =
            Inr [Line ''Linear Regression Results:'',
                 Number ''Intercept:'' (lr_intercept sk (lr_fit sk tr)),
                 Numbers ''Coefficients (total_seconds, points_previous_game, is_playoff, is_home):''
                   (lr_coef sk (lr_fit sk tr)),
                 Fixed2 ''R-squared: '' (r2_score sk (map snd te) (lr_predict sk (lr_fit sk tr) (map fst te))),
                 Fixed2 ''Mean Squared Error: '' (mean_squared_error sk (map snd te) (lr_predict sk (lr_fit sk tr) (map fst te)))] \<and>
          random_forest sk df =
            Inr [Line ''Random Forest Results:'',
                 Fixed2 ''R-squared: '' (r2_score sk (map snd te) (rf_predict sk (rf_fit sk tr) (map fst te))),
                 Fixed2 ''Mean Squared Error: '' (mean_squared_error sk (map snd te) (rf_predict sk (rf_fit sk tr) (map fst te))),
                 Numbers ''Feature Importance (total_seconds, points_previous_game, is_playoff, is_home):''
                   (rf_feature_importances sk (rf_fit sk tr))])) \<and>
   (10 \<le> length (player_data df p) \<longrightarrow>
      (let tr = fst (train_test_split sk (map sample_of (player_data df p)));
           te = snd (train_test_split sk (map sample_of (player_data df p)))
       in train_player_model sk df p =
            Inr [Line (''Results for '' @ p @ '':''),
                 Number ''Intercept:'' (lr_intercept sk (lr_fit sk tr)),
                 Numbers ''Coefficients (total_seconds, points_previous_game, is_playoff, is_home):''
                   (lr_coef sk (lr_fit sk tr)),
                 Fixed2 ''R-squared: '' (r2_score sk (map snd te) (lr_predict sk (lr_fit sk tr) (map fst te))),
                 Fixed2 ''Mean Squared Error: '' (mean_squared_error sk (map snd te) (lr_predict sk (lr_fit sk tr) (map fst te)))]))"
  using linear_regression_report [of df sk] random_forest_report [of df sk]
    train_player_model_report [of df p sk]
  unfolding Let_def by blast

theorem reported_figures_witness:
  "train_player_model constant_fit steady_players ''Punter Kevin'' =
     Inr [Line ''Results for Punter Kevin:'', Number ''Intercept:'' 10,
          Numbers ''Coefficients (total_seconds, points_previous_game, is_playoff, is_home):''
            [0, 0, 0, 0],
          Fixed2 ''R-squared: '' 1, Fixed2 ''Mean Squared Error: '' 0]"
proof -
  have b: "10 \<le> length (player_data steady_players ''Punter Kevin'')"
    by (simp add: steady_lengths)
  note r = reported_figures [of steady_players constant_fit "''Punter Kevin''",
      THEN conjunct2, THEN mp, OF b]
  from r show ?thesis
    unfolding steady_punter Let_def
    by (simp add: constant_fit_def mean_def squared_errors_def)
qed

text \<open>
  Claim C9 as stated fails: on \<open>steady_players\<close> the three reports are the lines below,
  five, four and five in number. Each has one line for the mean squared error and none
  for its root.
\<close>

theorem rmse_counterexample:
  "linear_regression constant_fit steady_players =
     Inr [Line ''Linear Regression Results:'', Number ''Intercept:'' 10,
          Numbers ''Coefficients (total_seconds, points_previous_game, is_playoff, is_home):''
            [0, 0, 0, 0],
          Fixed2 ''R-squared: '' 1, Fixed2 ''Mean Squared Error: '' 0] \<and>
   random_forest constant_fit steady_players =
     Inr [Line ''Random Forest Results:'', Fixed2 ''R-squared: '' 1,
          Fixed2 ''Mean Squared Error: '' 0,
          Numbers ''Feature Importance (total_seconds, points_previous_game, is_playoff, is_home):''
            [0, 0, 0, 0]] \<and>
   train_player_model constant_fit steady_players ''Punter Kevin'' =
     Inr [Line ''Results for Punter Kevin:'', Number ''Intercept:'' 10,
          Numbers ''Coefficients (total_seconds, points_previous_game, is_playoff, is_home):''
            [0, 0, 0, 0],
          Fixed2 ''R-squared: '' 1, Fixed2 ''Mean Squared Error: '' 0]"
proof (intro conjI)
  show "linear_regression constant_fit steady_players =
     Inr [Line ''Linear Regression Results:'', Number ''Intercept:'' 10,
          Numbers ''Coefficients (total_seconds, points_previous_game, is_playoff, is_home):''
            [0, 0, 0, 0],
          Fixed2 ''R-squared: '' 1, Fixed2 ''Mean Squared Error: '' 0]"
    unfolding linear_regression_def steady_lengths steady_pool
    by (simp add: constant_fit_def mean_def squared_errors_def)
  show "random_forest constant_fit steady_players =
     Inr [Line ''Random Forest Results:'', Fixed2 ''R-squared: '' 1,
          Fixed2 ''Mean Squared Error: '' 0,
          Numbers ''Feature Importance (total_seconds, points_previous_game, is_playoff, is_home):''
            [0, 0, 0, 0]]"
    unfolding random_forest_def steady_lengths steady_pool
    by (simp add: constant_fit_def mean_def squared_errors_def)
  show "train_player_model constant_fit steady_players ''Punter Kevin'' =
     Inr [Line ''Results for Punter Kevin:'', Number ''Intercept:'' 10,
          Numbers ''Coefficients (total_seconds, points_previous_game, is_playoff, is_home):''
            [0, 0, 0, 0],
          Fixed2 ''R-squared: '' 1, Fixed2 ''Mean Squared Error: '' 0]"
    by (rule steady_punter_model)
qed

section \<open>Summary statistics\<close>



lemma sorted_active_rows:
  "rows_of p (sorted_active df) =
     sort_key (\<lambda>r. (player r, order_key phase_order_consistency r)) (rows_of p (active_players df))"
  by (simp add: sorted_active_def rows_of_sort_values)


lemma length_sorted_active:
  "length (rows_of p (sorted_active df)) = length (rows_of p (active_players df))"
  by (simp add: sorted_active_rows)














end
